theory Spec2Isabelle
  imports Main
begin

section \<open>The task API of \<^verbatim>\<open>src/routes/main.js\<close>\<close>

text \<open>
  The router of \<^verbatim>\<open>src/routes/main.js\<close> has five handlers, two on \<^verbatim>\<open>/\<close> and three on
  \<^verbatim>\<open>/:id\<close>. Each one awaits operations of \<^verbatim>\<open>repository\<close> inside a
  \<^verbatim>\<open>try\<close> block, writes one JSON response and, in the \<^verbatim>\<open>catch\<close> block, answers 500
  with the error it caught.

  The embedding passes the store explicitly: a handler takes the repository, the request,
  the response object and the store, and returns the response object, the store after the
  call and the exception that left the handler, if one did. A rejected promise is the left
  summand of a sum type.
\<close>

subsection \<open>Requests\<close>

type_synonym timestamp = string

text \<open>
  A JavaScript object that carries some of the properties of a task: the request body
  parsed by \<^verbatim>\<open>express.json()\<close>, and the object literals the handlers hand to
  \<^verbatim>\<open>repository.create\<close> and \<^verbatim>\<open>repository.update\<close>. \<open>None\<close> is
  \<^verbatim>\<open>undefined\<close>: reading a property the object does not have. The values are typed as
  the \<^verbatim>\<open>Task\<close> schema of the OpenAPI annotation documents them.
\<close>

record props =
  id' :: "nat option"
  title :: "string option"
  description :: "string option"
  dueDate :: "timestamp option"
  isFinished :: "bool option"

text \<open>\<^verbatim>\<open>req.params.id\<close> and \<^verbatim>\<open>req.body\<close>. No handler inspects the path parameter, so
  its type is left open.\<close>

record 'k request =
  params_id :: 'k
  body :: props

subsection \<open>Responses\<close>

text \<open>
  What a \<^verbatim>\<open>catch\<close> block can receive: the error a repository operation rejected with,
  or the \<^verbatim>\<open>TypeError\<close> that \<^verbatim>\<open>JSON.stringify\<close> throws inside \<^verbatim>\<open>res.json\<close> on a value
  it cannot serialise (one that holds a circular reference or a \<^verbatim>\<open>BigInt\<close>).
\<close>

datatype 'e thrown = Rejected 'e | TypeError

datatype ('t, 'e) payload =
  JTasks "'t list"
| JTask 't
| JText string
| JError "'e thrown"

text \<open>
  The response object of Express: \<^verbatim>\<open>res.status(c)\<close> stores the status code and returns
  the object, \<^verbatim>\<open>res.json(v)\<close> serialises \<open>v\<close> with \<^verbatim>\<open>JSON.stringify\<close> and then sends
  it under the stored code. \<open>sent\<close> logs every response sent, in order, so that sending
  twice is visible. The type of the errors is left open, and with it whether
  \<^verbatim>\<open>JSON.stringify\<close> returns on an error: \<open>serialises\<close> is that test.
\<close>

record ('t, 'e) response =
  statusCode :: nat
  sent :: "(nat \<times> ('t, 'e) payload) list"
  serialises :: "'e \<Rightarrow> bool"

definition new_res :: "('e \<Rightarrow> bool) \<Rightarrow> ('t, 'e) response" where
  "new_res ok = \<lparr>statusCode = 200, sent = [], serialises = ok\<rparr>"

definition status :: "nat \<Rightarrow> ('t, 'e) response \<Rightarrow> ('t, 'e) response" where
  "status c res = res\<lparr>statusCode := c\<rparr>"

text \<open>
  Whether \<^verbatim>\<open>JSON.stringify\<close> returns on a value the handlers send. It does on a string,
  on a task (an object of the \<^verbatim>\<open>Task\<close> schema: an integer, two strings, a timestamp and
  a boolean), on an array of tasks and on a \<^verbatim>\<open>TypeError\<close>, which has no enumerable
  property. On an error of the repository it depends on the error.
\<close>

fun stringifies :: "('e \<Rightarrow> bool) \<Rightarrow> ('t, 'e) payload \<Rightarrow> bool" where
  "stringifies ok (JError (Rejected e)) = ok e"
| "stringifies ok (JError TypeError) = True"
| "stringifies ok (JTasks ts) = True"
| "stringifies ok (JTask t) = True"
| "stringifies ok (JText x) = True"

text \<open>\<^verbatim>\<open>res.json(v)\<close>: when the serialisation throws, nothing has been sent and the
  \<^verbatim>\<open>TypeError\<close> goes to the caller.\<close>

definition json :: "('t, 'e) payload \<Rightarrow> ('t, 'e) response \<Rightarrow> 'e thrown + ('t, 'e) response" where
  "json v res =
     (if stringifies (serialises res) v
      then Inr (res\<lparr>sent := sent res @ [(statusCode res, v)]\<rparr>)
      else Inl TypeError)"

subsection \<open>The repository\<close>

text \<open>\<^verbatim>\<open>UpdateResult\<close> and \<^verbatim>\<open>DeleteResult\<close>: the handlers read \<^verbatim>\<open>result.affected\<close> only,
  and compare it with \<^verbatim>\<open>===\<close>, so a missing count is kept apart from the count 0.\<close>

record op_result =
  affected :: "nat option"

text \<open>
  \<^verbatim>\<open>repository = dataSource.getRepository(Task)\<close> is built outside \<^verbatim>\<open>src/\<close>; the
  handlers take it as a parameter. \<open>'s\<close> is the store, \<open>'k\<close> the path parameter,
  \<open>'r\<close> the record \<^verbatim>\<open>create\<close> builds, \<open>'t\<close> a stored task and \<open>'e\<close> what a failed
  operation throws.
\<close>

record ('s, 'k, 'r, 't, 'e) repository =
  repo_find :: "'s \<Rightarrow> ('e + 't list) \<times> 's"
  repo_findOne :: "'k \<Rightarrow> 's \<Rightarrow> ('e + 't option) \<times> 's"
  repo_create :: "props \<Rightarrow> 'e + 'r"
  repo_save :: "'r \<Rightarrow> 's \<Rightarrow> ('e + 't) \<times> 's"
  repo_update :: "'k \<Rightarrow> props \<Rightarrow> 's \<Rightarrow> ('e + op_result) \<times> 's"
  repo_delete :: "'k \<Rightarrow> 's \<Rightarrow> ('e + op_result) \<times> 's"

subsection \<open>The handlers\<close>

text \<open>
  What a call of a handler leaves behind: the response object, the store, and the
  exception that left the handler (the rejection of the promise the \<^verbatim>\<open>async\<close> function
  returns), if there is one.
\<close>

type_synonym ('t, 'e, 's) outcome = "('t, 'e) response \<times> 's \<times> 'e thrown option"

definition store_after :: "'a \<times> 's \<times> 'x \<Rightarrow> 's" where
  "store_after out = fst (snd out)"

definition escaped :: "'a \<times> 's \<times> 'x \<Rightarrow> 'x" where
  "escaped out = snd (snd out)"

text \<open>
  The \<^verbatim>\<open>catch\<close> block, the same in the five handlers:
  \<^verbatim>\<open>res.status(500).json(error)\<close>. Nothing guards the call, so what \<^verbatim>\<open>res.json\<close> throws
  here leaves the handler, after the status code has been set and before anything is sent.
\<close>

definition catch_error :: "'e thrown \<Rightarrow> ('t, 'e) response \<Rightarrow> 's \<Rightarrow> ('t, 'e, 's) outcome" where
  "catch_error error res s =
     (case json (JError error) (status 500 res) of
        Inr res' \<Rightarrow> (res', s, None)
      | Inl thrown \<Rightarrow> (status 500 res, s, Some thrown))"

text \<open>A call of \<^verbatim>\<open>res.json\<close> that ends the \<^verbatim>\<open>try\<close> block: what it throws is caught by
  the \<^verbatim>\<open>catch\<close> block.\<close>

definition try_send :: "('t, 'e) payload \<Rightarrow> ('t, 'e) response \<Rightarrow> 's \<Rightarrow> ('t, 'e, 's) outcome" where
  "try_send v res s =
     (case json v res of
        Inr res' \<Rightarrow> (res', s, None)
      | Inl thrown \<Rightarrow> catch_error thrown res s)"

text \<open>\<^verbatim>\<open>router.route('/').get\<close>\<close>

definition get_tasks ::
  "('s, 'k, 'r, 't, 'e) repository \<Rightarrow> 'k request \<Rightarrow> ('t, 'e) response \<Rightarrow> 's
    \<Rightarrow> ('t, 'e, 's) outcome" where
  "get_tasks repository req res s =
     (case repo_find repository s of
        (Inr data, s') \<Rightarrow> try_send (JTasks data) res s'
      | (Inl error, s') \<Rightarrow> catch_error (Rejected error) res s')"

text \<open>\<^verbatim>\<open>router.route('/').post\<close>\<close>

definition post_task ::
  "('s, 'k, 'r, 't, 'e) repository \<Rightarrow> 'k request \<Rightarrow> ('t, 'e) response \<Rightarrow> 's
    \<Rightarrow> ('t, 'e, 's) outcome" where
  "post_task repository req res s =
     (case repo_create repository
             \<lparr>id' = None,
              title = title (body req),
              description = description (body req),
              dueDate = dueDate (body req),
              isFinished = None\<rparr> of
        Inl error \<Rightarrow> catch_error (Rejected error) res s
      | Inr new_record \<Rightarrow>
          (case repo_save repository new_record s of
             (Inr task, s') \<Rightarrow> try_send (JTask task) (status 200 res) s'
           | (Inl error, s') \<Rightarrow> catch_error (Rejected error) res s'))"

text \<open>\<^verbatim>\<open>router.route('/:id').get\<close>\<close>

definition get_task ::
  "('s, 'k, 'r, 't, 'e) repository \<Rightarrow> 'k request \<Rightarrow> ('t, 'e) response \<Rightarrow> 's
    \<Rightarrow> ('t, 'e, 's) outcome" where
  "get_task repository req res s =
     (case repo_findOne repository (params_id req) s of
        (Inr None, s') \<Rightarrow> try_send (JText ''Task not found'') (status 404 res) s'
      | (Inr (Some task), s') \<Rightarrow> try_send (JTask task) res s'
      | (Inl error, s') \<Rightarrow> catch_error (Rejected error) res s')"

text \<open>\<^verbatim>\<open>router.route('/:id').patch\<close>\<close>

definition patch_task ::
  "('s, 'k, 'r, 't, 'e) repository \<Rightarrow> 'k request \<Rightarrow> ('t, 'e) response \<Rightarrow> 's
    \<Rightarrow> ('t, 'e, 's) outcome" where
  "patch_task repository req res s =
     (case repo_update repository (params_id req)
             \<lparr>id' = None,
              title = title (body req),
              description = description (body req),
              dueDate = dueDate (body req),
              isFinished = isFinished (body req)\<rparr> s of
        (Inr result, s') \<Rightarrow>
          (if affected result = Some 0
           then try_send (JText ''Task not found'') (status 404 res) s'
           else try_send (JText ''Task updated successfully'') (status 200 res) s')
      | (Inl error, s') \<Rightarrow> catch_error (Rejected error) res s')"

text \<open>\<^verbatim>\<open>router.route('/:id').delete\<close>\<close>

definition delete_task ::
  "('s, 'k, 'r, 't, 'e) repository \<Rightarrow> 'k request \<Rightarrow> ('t, 'e) response \<Rightarrow> 's
    \<Rightarrow> ('t, 'e, 's) outcome" where
  "delete_task repository req res s =
     (case repo_delete repository (params_id req) s of
        (Inr result, s') \<Rightarrow>
          (if affected result = Some 0
           then try_send (JText ''Task not found'') (status 404 res) s'
           else try_send (JText ''Task deleted successfully'') (status 200 res) s')
      | (Inl error, s') \<Rightarrow> catch_error (Rejected error) res s')"

text \<open>The five routes of the router, and the dispatch of a matched request to its handler.\<close>

datatype route = GetTasks | PostTask | GetTask | PatchTask | DeleteTask

fun handle ::
  "route \<Rightarrow> ('s, 'k, 'r, 't, 'e) repository \<Rightarrow> 'k request \<Rightarrow> ('t, 'e) response \<Rightarrow> 's
    \<Rightarrow> ('t, 'e, 's) outcome" where
  "handle GetTasks = get_tasks"
| "handle PostTask = post_task"
| "handle GetTask = get_task"
| "handle PatchTask = patch_task"
| "handle DeleteTask = delete_task"

subsection \<open>The store\<close>

text \<open>
  \<^verbatim>\<open>../entities/task\<close> and \<^verbatim>\<open>../dataSource\<close> are not among the sources. The
  definitions of this subsection stand for them: a table of tasks in memory, written from
  sections 3 and 4.2 of the specification.
\<close>

text \<open>Modelled from the spec: the entity \<^verbatim>\<open>Task\<close> of \<^verbatim>\<open>../entities/task\<close>. An integer
  \<^verbatim>\<open>id\<close>, a required \<^verbatim>\<open>title\<close> and \<^verbatim>\<open>description\<close>, an optional
  \<^verbatim>\<open>dueDate\<close>, a boolean \<^verbatim>\<open>isFinished\<close>.\<close>

record task =
  task_id :: nat
  task_title :: string
  task_description :: string
  task_dueDate :: "timestamp option"
  task_isFinished :: bool

text \<open>Modelled from the spec: the table behind \<^verbatim>\<open>../dataSource\<close>. The rows in the
  order of the store, and the next value of the sequence that generates \<^verbatim>\<open>id\<close>.\<close>

record store =
  rows :: "task list"
  next_id :: nat

text \<open>Modelled from the spec: the table before any task is created.\<close>

definition empty_store :: store where
  "empty_store = \<lparr>rows = [], next_id = 1\<rparr>"

text \<open>Modelled from the spec: the failures of the store that section 7 names. The
  constraint is the one the schema states, a required column left out at creation.\<close>

datatype store_error = ConnectionFailure | NotNull string | Timeout

text \<open>Modelled from the spec: \<^verbatim>\<open>find()\<close>, the sequence of all tasks.\<close>

definition mem_find :: "store \<Rightarrow> (store_error + task list) \<times> store" where
  "mem_find s = (Inr (rows s), s)"

text \<open>Modelled from the spec: \<^verbatim>\<open>findOne({id})\<close>, a single task or the not-found
  sentinel.\<close>

definition mem_findOne :: "nat \<Rightarrow> store \<Rightarrow> (store_error + task option) \<times> store" where
  "mem_findOne k s = (Inr (find (\<lambda>t. task_id t = k) (rows s)), s)"

text \<open>Modelled from the spec: \<^verbatim>\<open>create(fields)\<close>, which builds a record in memory and
  persists nothing.\<close>

definition mem_create :: "props \<Rightarrow> store_error + props" where
  "mem_create p = Inr p"

text \<open>Modelled from the spec: \<^verbatim>\<open>save(record)\<close>, which persists the record and returns
  it with the \<^verbatim>\<open>id\<close> the store assigns. The schema requires \<^verbatim>\<open>title\<close> and
  \<^verbatim>\<open>description\<close> and defaults \<^verbatim>\<open>isFinished\<close> to false.\<close>

definition mem_save :: "props \<Rightarrow> store \<Rightarrow> (store_error + task) \<times> store" where
  "mem_save p s =
     (case title p of
        None \<Rightarrow> (Inl (NotNull ''title''), s)
      | Some t \<Rightarrow>
          (case description p of
             None \<Rightarrow> (Inl (NotNull ''description''), s)
           | Some d \<Rightarrow>
               (let saved = \<lparr>task_id = next_id s,
                             task_title = t,
                             task_description = d,
                             task_dueDate = dueDate p,
                             task_isFinished = (case isFinished p of None \<Rightarrow> False | Some b \<Rightarrow> b)\<rparr>
                in (Inr saved, \<lparr>rows = rows s @ [saved], next_id = Suc (next_id s)\<rparr>))))"

text \<open>Modelled from the spec: the partial fields of \<^verbatim>\<open>update\<close> applied to one row. A
  field that is \<^verbatim>\<open>undefined\<close> leaves the column as it is.\<close>

definition set_props :: "props \<Rightarrow> task \<Rightarrow> task" where
  "set_props p t =
     \<lparr>task_id = (case id' p of None \<Rightarrow> task_id t | Some i \<Rightarrow> i),
      task_title = (case title p of None \<Rightarrow> task_title t | Some v \<Rightarrow> v),
      task_description = (case description p of None \<Rightarrow> task_description t | Some v \<Rightarrow> v),
      task_dueDate = (case dueDate p of None \<Rightarrow> task_dueDate t | Some v \<Rightarrow> Some v),
      task_isFinished = (case isFinished p of None \<Rightarrow> task_isFinished t | Some b \<Rightarrow> b)\<rparr>"

text \<open>Modelled from the spec: \<^verbatim>\<open>update({id}, fields)\<close>, which applies the partial fields
  to the row matching \<^verbatim>\<open>id\<close> and returns the affected-row count.\<close>

definition mem_update :: "nat \<Rightarrow> props \<Rightarrow> store \<Rightarrow> (store_error + op_result) \<times> store" where
  "mem_update k p s =
     (Inr \<lparr>affected = Some (length (filter (\<lambda>t. task_id t = k) (rows s)))\<rparr>,
      s\<lparr>rows := map (\<lambda>t. if task_id t = k then set_props p t else t) (rows s)\<rparr>)"

text \<open>Modelled from the spec: \<^verbatim>\<open>delete({id})\<close>, which removes the row matching
  \<^verbatim>\<open>id\<close> and returns the affected-row count.\<close>

definition mem_delete :: "nat \<Rightarrow> store \<Rightarrow> (store_error + op_result) \<times> store" where
  "mem_delete k s =
     (Inr \<lparr>affected = Some (length (filter (\<lambda>t. task_id t = k) (rows s)))\<rparr>,
      s\<lparr>rows := filter (\<lambda>t. task_id t \<noteq> k) (rows s)\<rparr>)"

text \<open>Modelled from the spec: the repository over the table above.\<close>

definition mem_repo :: "(store, nat, props, task, store_error) repository" where
  "mem_repo =
     \<lparr>repo_find = mem_find,
      repo_findOne = mem_findOne,
      repo_create = mem_create,
      repo_save = mem_save,
      repo_update = mem_update,
      repo_delete = mem_delete\<rparr>"

text \<open>A repository whose store cannot be reached: every operation throws \<open>e\<close>.\<close>

definition failing_repo :: "'e \<Rightarrow> ('s, 'k, 'r, 't, 'e) repository" where
  "failing_repo e =
     \<lparr>repo_find = (\<lambda>s. (Inl e, s)),
      repo_findOne = (\<lambda>k s. (Inl e, s)),
      repo_create = (\<lambda>p. Inl e),
      repo_save = (\<lambda>r s. (Inl e, s)),
      repo_update = (\<lambda>k p s. (Inl e, s)),
      repo_delete = (\<lambda>k s. (Inl e, s))\<rparr>"

definition offline_repo :: "(store, nat, props, task, store_error) repository" where
  "offline_repo = failing_repo ConnectionFailure"

text \<open>The invariant of the table: the ids of the rows are pairwise different and below
  the next value of the sequence.\<close>

definition store_ok :: "store \<Rightarrow> bool" where
  "store_ok s = (distinct (map task_id (rows s)) \<and> list_all (\<lambda>t. task_id t < next_id s) (rows s))"

text \<open>A request with an empty body, and requests used as examples below.\<close>

definition no_props :: props where
  "no_props = \<lparr>id' = None, title = None, description = None, dueDate = None, isFinished = None\<rparr>"

definition workout :: props where
  "workout = no_props\<lparr>title := Some ''Workout'', description := Some ''jumping jacks''\<rparr>"

definition one_task_store :: store where
  "one_task_store = snd (mem_save workout empty_store)"

definition req_for :: "nat \<Rightarrow> props \<Rightarrow> nat request" where
  "req_for k b = \<lparr>params_id = k, body = b\<rparr>"

text \<open>The response object of a new request over the store above, whose errors are
  plain values that serialise.\<close>

definition fresh :: "(task, store_error) response" where
  "fresh = new_res (\<lambda>e. True)"

text \<open>
  An error object as a database driver throws it. \<open>Plain\<close> holds values only; \<open>Cyclic\<close>
  holds a reference that leads back to the error itself, for instance through the
  connection it was raised on, and \<^verbatim>\<open>JSON.stringify\<close> throws on it.
\<close>

datatype driver_error = Plain string | Cyclic string

fun acyclic :: "driver_error \<Rightarrow> bool" where
  "acyclic (Plain code) = True"
| "acyclic (Cyclic code) = False"

definition broken_repo :: "(store, nat, props, task, driver_error) repository" where
  "broken_repo = failing_repo (Cyclic ''ECONNRESET'')"

definition driver_res :: "(task, driver_error) response" where
  "driver_res = new_res acyclic"

text \<open>A sequence of matched requests served one after the other, each with a response
  object of its own; the store is what the requests share.\<close>

fun serve :: "(route \<times> nat request) list \<Rightarrow> store \<Rightarrow> store" where
  "serve [] s = s"
| "serve ((rt, req) # rest) s = serve rest (store_after (handle rt mem_repo req fresh s))"

section \<open>The responses of the handlers\<close>

lemma store_after_simp: "store_after (res, s, x) = s"
  by (simp add: store_after_def)

lemma escaped_simp: "escaped (res, s, x) = x"
  by (simp add: escaped_def)

lemma try_send_JTasks:
  "try_send (JTasks ts) res s = (res\<lparr>sent := sent res @ [(statusCode res, JTasks ts)]\<rparr>, s, None)"
  by (simp add: try_send_def json_def)

lemma try_send_JTask:
  "try_send (JTask t) res s = (res\<lparr>sent := sent res @ [(statusCode res, JTask t)]\<rparr>, s, None)"
  by (simp add: try_send_def json_def)

lemma try_send_JText:
  "try_send (JText x) res s = (res\<lparr>sent := sent res @ [(statusCode res, JText x)]\<rparr>, s, None)"
  by (simp add: try_send_def json_def)

lemma catch_error_Rejected:
  "catch_error (Rejected e) res s =
     (if serialises res e
      then (res\<lparr>statusCode := 500, sent := sent res @ [(500, JError (Rejected e))]\<rparr>, s, None)
      else (res\<lparr>statusCode := 500\<rparr>, s, Some TypeError))"
  by (simp add: catch_error_def json_def status_def)

lemmas res_simps = store_after_simp escaped_simp try_send_JTasks try_send_JTask try_send_JText
  catch_error_Rejected status_def

lemma one_task_store_eq:
  "one_task_store =
     \<lparr>rows = [\<lparr>task_id = 1, task_title = ''Workout'', task_description = ''jumping jacks'',
               task_dueDate = None, task_isFinished = False\<rparr>],
      next_id = 2\<rparr>"
  by (simp add: one_task_store_def mem_save_def workout_def no_props_def empty_store_def Let_def)

lemma fresh_simps: "statusCode fresh = 200" "sent fresh = []" "serialises fresh e"
  by (simp_all add: fresh_def new_res_def)

lemma driver_res_simps:
  "statusCode driver_res = 200" "sent driver_res = []" "serialises driver_res = acyclic"
  by (simp_all add: driver_res_def new_res_def)

text \<open>
  C1, as amended. When \<^verbatim>\<open>repository.delete\<close> reports an affected count of 0, the
  handler of \<^verbatim>\<open>DELETE /:id\<close> sends status 404 with the body \<^verbatim>\<open>"Task not found"\<close>, the
  text the other two handlers of \<^verbatim>\<open>/:id\<close> use; for any other count it sends status 200
  with \<^verbatim>\<open>"Task deleted successfully"\<close>. In both cases it sends that response only.
\<close>

theorem delete_task_response:
  assumes "repo_delete repository (params_id req) s = (Inr result, s')"
  shows "sent (fst (delete_task repository req res s)) =
           sent res @
             [if affected result = Some 0 then (404, JText ''Task not found'')
              else (200, JText ''Task deleted successfully'')]"
  using assms by (simp add: delete_task_def res_simps)

theorem delete_task_response_witness:
  "repo_delete mem_repo (params_id (req_for 7 no_props)) empty_store
     = (Inr \<lparr>affected = Some 0\<rparr>, empty_store)
   \<and> sent (fst (delete_task mem_repo (req_for 7 no_props) fresh empty_store))
     = [(404, JText ''Task not found'')]
   \<and> repo_delete mem_repo (params_id (req_for 1 no_props)) one_task_store
     = (Inr \<lparr>affected = Some 1\<rparr>, \<lparr>rows = [], next_id = 2\<rparr>)
   \<and> sent (fst (delete_task mem_repo (req_for 1 no_props) fresh one_task_store))
     = [(200, JText ''Task deleted successfully'')]"
proof -
  have absent: "repo_delete mem_repo (params_id (req_for 7 no_props)) empty_store
      = (Inr \<lparr>affected = Some 0\<rparr>, empty_store)"
    by (simp add: mem_repo_def mem_delete_def req_for_def empty_store_def)
  have present: "repo_delete mem_repo (params_id (req_for 1 no_props)) one_task_store
      = (Inr \<lparr>affected = Some 1\<rparr>, \<lparr>rows = [], next_id = 2\<rparr>)"
    by (simp add: mem_repo_def mem_delete_def req_for_def one_task_store_eq)
  show ?thesis
    using absent present
      delete_task_response [OF absent, of fresh]
      delete_task_response [OF present, of fresh]
    by (simp add: fresh_simps)
qed

text \<open>
  C1 as the specification words it fails: on the empty store, \<^verbatim>\<open>DELETE /7\<close> has an
  affected count of 0 and the body sent with the 404 is \<^verbatim>\<open>"Task not found"\<close>, not
  \<^verbatim>\<open>"The task was not found"\<close>.
\<close>

theorem delete_task_not_found_text_counterexample:
  "repo_delete mem_repo (params_id (req_for 7 no_props)) empty_store
     = (Inr \<lparr>affected = Some 0\<rparr>, empty_store)
   \<and> sent (fst (delete_task mem_repo (req_for 7 no_props) fresh empty_store))
     = [(404, JText ''Task not found'')]
   \<and> sent (fst (delete_task mem_repo (req_for 7 no_props) fresh empty_store))
     \<noteq> [(404, JText ''The task was not found'')]"
  by (simp add: delete_task_def mem_repo_def mem_delete_def req_for_def empty_store_def
      res_simps fresh_simps)

text \<open>
  C5. When \<^verbatim>\<open>repository.update\<close> on the row matching the path id reports an affected
  count equal to 0, the handler of \<^verbatim>\<open>PATCH /:id\<close> sends 404 with \<^verbatim>\<open>"Task not found"\<close>;
  for any other count it sends 200 with \<^verbatim>\<open>"Task updated successfully"\<close>. The object
  handed to \<^verbatim>\<open>update\<close> carries the four properties read from the body.
\<close>

theorem patch_task_response:
  assumes "repo_update repository (params_id req)
             \<lparr>id' = None, title = title (body req), description = description (body req),
              dueDate = dueDate (body req), isFinished = isFinished (body req)\<rparr> s
           = (Inr result, s')"
  shows "sent (fst (patch_task repository req res s)) =
           sent res @
             [if affected result = Some 0 then (404, JText ''Task not found'')
              else (200, JText ''Task updated successfully'')]"
  using assms by (simp add: patch_task_def res_simps)

theorem patch_task_response_witness:
  "sent (fst (patch_task mem_repo (req_for 7 workout) fresh empty_store))
     = [(404, JText ''Task not found'')]
   \<and> sent (fst (patch_task mem_repo (req_for 1 no_props) fresh one_task_store))
     = [(200, JText ''Task updated successfully'')]"
proof -
  have absent: "repo_update mem_repo (params_id (req_for 7 workout))
      \<lparr>id' = None, title = title (body (req_for 7 workout)),
       description = description (body (req_for 7 workout)),
       dueDate = dueDate (body (req_for 7 workout)),
       isFinished = isFinished (body (req_for 7 workout))\<rparr> empty_store
      = (Inr \<lparr>affected = Some 0\<rparr>, empty_store)"
    by (simp add: mem_repo_def mem_update_def req_for_def empty_store_def)
  have present: "repo_update mem_repo (params_id (req_for 1 no_props))
      \<lparr>id' = None, title = title (body (req_for 1 no_props)),
       description = description (body (req_for 1 no_props)),
       dueDate = dueDate (body (req_for 1 no_props)),
       isFinished = isFinished (body (req_for 1 no_props))\<rparr> one_task_store
      = (Inr \<lparr>affected = Some 1\<rparr>, one_task_store)"
    by (simp add: mem_repo_def mem_update_def req_for_def one_task_store_eq set_props_def
        no_props_def)
  show ?thesis
    using patch_task_response [OF absent, of fresh] patch_task_response [OF present, of fresh]
    by (simp add: fresh_simps)
qed

text \<open>
  C4. When \<^verbatim>\<open>repository.findOne\<close> on the path id returns the not-found sentinel, the
  handler of \<^verbatim>\<open>GET /:id\<close> sends 404 with \<^verbatim>\<open>"Task not found"\<close> and nothing else;
  when it returns a task, the handler sends that task, under the status code of a response
  object nobody has touched, 200.
\<close>

theorem get_task_response:
  assumes "repo_findOne repository (params_id req) s = (Inr found, s')"
    and "statusCode res = 200"
  shows "sent (fst (get_task repository req res s)) =
           sent res @
             [case found of
                None \<Rightarrow> (404, JText ''Task not found'')
              | Some task \<Rightarrow> (200, JTask task)]"
  using assms by (simp add: get_task_def res_simps split: option.splits)

theorem get_task_response_witness:
  "sent (fst (get_task mem_repo (req_for 7 no_props) fresh one_task_store))
     = [(404, JText ''Task not found'')]
   \<and> sent (fst (get_task mem_repo (req_for 1 no_props) fresh one_task_store))
     = [(200, JTask \<lparr>task_id = 1, task_title = ''Workout'',
                      task_description = ''jumping jacks'', task_dueDate = None,
                      task_isFinished = False\<rparr>)]"
proof -
  have absent: "repo_findOne mem_repo (params_id (req_for 7 no_props)) one_task_store
      = (Inr None, one_task_store)"
    by (simp add: mem_repo_def mem_findOne_def req_for_def one_task_store_eq)
  have present: "repo_findOne mem_repo (params_id (req_for 1 no_props)) one_task_store
      = (Inr (Some \<lparr>task_id = 1, task_title = ''Workout'',
                     task_description = ''jumping jacks'', task_dueDate = None,
                     task_isFinished = False\<rparr>), one_task_store)"
    by (simp add: mem_repo_def mem_findOne_def req_for_def one_task_store_eq)
  show ?thesis
    using get_task_response [OF absent fresh_simps(1)]
      get_task_response [OF present fresh_simps(1)]
    by (simp add: fresh_simps)
qed

text \<open>
  C6. Whatever the store holds, when \<^verbatim>\<open>repository.find\<close> returns, the handler of
  \<^verbatim>\<open>GET /\<close> sends status 200 with the array of exactly the tasks returned, in their
  order; when no task is returned the body is the empty array.
\<close>

theorem get_tasks_response:
  assumes "repo_find repository s = (Inr data, s')"
    and "statusCode res = 200"
  shows "sent (fst (get_tasks repository req res s)) = sent res @ [(200, JTasks data)]
         \<and> (sent (fst (get_tasks repository req res s)) = sent res @ [(200, JTasks [])])
             = (data = [])"
  using assms by (simp add: get_tasks_def res_simps)

theorem get_tasks_response_witness:
  "sent (fst (get_tasks mem_repo (req_for 0 no_props) fresh empty_store)) = [(200, JTasks [])]
   \<and> sent (fst (get_tasks mem_repo (req_for 0 no_props) fresh one_task_store))
     = [(200, JTasks [\<lparr>task_id = 1, task_title = ''Workout'',
                        task_description = ''jumping jacks'', task_dueDate = None,
                        task_isFinished = False\<rparr>])]"
proof -
  have none: "repo_find mem_repo empty_store = (Inr [], empty_store)"
    by (simp add: mem_repo_def mem_find_def empty_store_def)
  have one: "repo_find mem_repo one_task_store
      = (Inr [\<lparr>task_id = 1, task_title = ''Workout'', task_description = ''jumping jacks'',
               task_dueDate = None, task_isFinished = False\<rparr>], one_task_store)"
    by (simp add: mem_repo_def mem_find_def one_task_store_eq)
  show ?thesis
    using get_tasks_response [OF none fresh_simps(1), of "req_for 0 no_props"]
      get_tasks_response [OF one fresh_simps(1), of "req_for 0 no_props"]
    by (simp add: fresh_simps)
qed

text \<open>
  C3, as amended. In each of the five handlers, when a repository operation it awaits
  throws an error \<open>e\<close> that \<^verbatim>\<open>res.json\<close> can serialise, whatever else \<open>e\<close> is, the
  handler catches it and sends exactly one response: status 500 with \<open>e\<close> itself as the
  JSON body; no exception leaves the handler. The handler of \<^verbatim>\<open>POST /\<close> awaits two
  operations, \<^verbatim>\<open>create\<close> and \<^verbatim>\<open>save\<close>, and does so for either. Whether or not the
  error serialises, it is caught: an error of the repository never leaves a handler.
\<close>

theorem store_error_gives_500:
  "(repo_find repository s = (Inl e, s') \<and> serialises res e \<longrightarrow>
      sent (fst (get_tasks repository req res s)) = sent res @ [(500, JError (Rejected e))]
      \<and> escaped (get_tasks repository req res s) = None)
   \<and> (repo_create repository
        \<lparr>id' = None, title = title (body req), description = description (body req),
         dueDate = dueDate (body req), isFinished = None\<rparr> = Inl e \<and> serialises res e \<longrightarrow>
      sent (fst (post_task repository req res s)) = sent res @ [(500, JError (Rejected e))]
      \<and> escaped (post_task repository req res s) = None)
   \<and> (repo_create repository
        \<lparr>id' = None, title = title (body req), description = description (body req),
         dueDate = dueDate (body req), isFinished = None\<rparr> = Inr r
       \<and> repo_save repository r s = (Inl e, s') \<and> serialises res e \<longrightarrow>
      sent (fst (post_task repository req res s)) = sent res @ [(500, JError (Rejected e))]
      \<and> escaped (post_task repository req res s) = None)
   \<and> (repo_findOne repository (params_id req) s = (Inl e, s') \<and> serialises res e \<longrightarrow>
      sent (fst (get_task repository req res s)) = sent res @ [(500, JError (Rejected e))]
      \<and> escaped (get_task repository req res s) = None)
   \<and> (repo_update repository (params_id req)
        \<lparr>id' = None, title = title (body req), description = description (body req),
         dueDate = dueDate (body req), isFinished = isFinished (body req)\<rparr> s = (Inl e, s')
       \<and> serialises res e \<longrightarrow>
      sent (fst (patch_task repository req res s)) = sent res @ [(500, JError (Rejected e))]
      \<and> escaped (patch_task repository req res s) = None)
   \<and> (repo_delete repository (params_id req) s = (Inl e, s') \<and> serialises res e \<longrightarrow>
      sent (fst (delete_task repository req res s)) = sent res @ [(500, JError (Rejected e))]
      \<and> escaped (delete_task repository req res s) = None)
   \<and> escaped (handle rt repository req res s) \<noteq> Some (Rejected e)"
proof -
  have caught: "escaped (handle rt repository req res s) \<noteq> Some (Rejected e)"
    by (cases rt)
      (simp_all add: get_tasks_def post_task_def get_task_def patch_task_def delete_task_def
        res_simps split: prod.splits sum.splits option.splits)
  then show ?thesis
    by (simp add: get_tasks_def post_task_def get_task_def patch_task_def delete_task_def
        res_simps)
qed

theorem store_error_gives_500_witness:
  "sent (fst (get_tasks offline_repo (req_for 1 workout) fresh one_task_store))
     = [(500, JError (Rejected ConnectionFailure))]
   \<and> sent (fst (post_task offline_repo (req_for 1 workout) fresh one_task_store))
     = [(500, JError (Rejected ConnectionFailure))]
   \<and> sent (fst (post_task mem_repo (req_for 1 no_props) fresh one_task_store))
     = [(500, JError (Rejected (NotNull ''title'')))]
   \<and> sent (fst (get_task offline_repo (req_for 1 workout) fresh one_task_store))
     = [(500, JError (Rejected ConnectionFailure))]
   \<and> sent (fst (patch_task offline_repo (req_for 1 workout) fresh one_task_store))
     = [(500, JError (Rejected ConnectionFailure))]
   \<and> sent (fst (delete_task offline_repo (req_for 1 workout) fresh one_task_store))
     = [(500, JError (Rejected ConnectionFailure))]
   \<and> escaped (delete_task offline_repo (req_for 1 workout) fresh one_task_store) = None"
proof -
  have built: "repo_create mem_repo
      \<lparr>id' = None, title = title (body (req_for 1 no_props)),
       description = description (body (req_for 1 no_props)),
       dueDate = dueDate (body (req_for 1 no_props)), isFinished = None\<rparr> = Inr no_props"
    by (simp add: mem_repo_def mem_create_def req_for_def no_props_def)
  have refused: "repo_save mem_repo no_props one_task_store
      = (Inl (NotNull ''title''), one_task_store)"
    by (simp add: mem_repo_def mem_save_def no_props_def)
  show ?thesis
    using built refused
      store_error_gives_500 [where repository = offline_repo and s = one_task_store
        and s' = one_task_store and e = ConnectionFailure and req = "req_for 1 workout"
        and res = fresh]
      store_error_gives_500 [where repository = mem_repo and s = one_task_store
        and s' = one_task_store and e = "NotNull ''title''" and req = "req_for 1 no_props"
        and res = fresh and r = no_props]
    by (simp add: offline_repo_def failing_repo_def fresh_simps)
qed

text \<open>
  C3 as the specification words it fails for an error that does not serialise: when
  \<^verbatim>\<open>repository.find\<close> throws an error that holds a circular reference, the handler of
  \<^verbatim>\<open>GET /\<close> catches it, \<^verbatim>\<open>res.json\<close> throws inside the \<^verbatim>\<open>catch\<close> block, no 500
  response is sent and a \<^verbatim>\<open>TypeError\<close> leaves the handler.
\<close>

theorem cyclic_error_no_500_counterexample:
  "repo_find broken_repo empty_store = (Inl (Cyclic ''ECONNRESET''), empty_store)
   \<and> sent (fst (get_tasks broken_repo (req_for 0 no_props) driver_res empty_store)) = []
   \<and> sent (fst (get_tasks broken_repo (req_for 0 no_props) driver_res empty_store))
     \<noteq> [(500, JError (Rejected (Cyclic ''ECONNRESET'')))]
   \<and> escaped (get_tasks broken_repo (req_for 0 no_props) driver_res empty_store)
     = Some TypeError"
  by (simp add: get_tasks_def broken_repo_def failing_repo_def res_simps driver_res_simps)




section \<open>The handlers over the store\<close>

lemma get_tasks_mem: "get_tasks mem_repo req res s = try_send (JTasks (rows s)) res s"
  by (simp add: get_tasks_def mem_repo_def mem_find_def)

lemma get_task_mem:
  "get_task mem_repo req res s =
     (case find (\<lambda>t. task_id t = params_id req) (rows s) of
        None \<Rightarrow> try_send (JText ''Task not found'') (status 404 res) s
      | Some task \<Rightarrow> try_send (JTask task) res s)"
  by (simp add: get_task_def mem_repo_def mem_findOne_def split: option.splits)

lemma post_task_mem:
  "post_task mem_repo req res s =
     (case title (body req) of
        None \<Rightarrow> catch_error (Rejected (NotNull ''title'')) res s
      | Some t \<Rightarrow>
          (case description (body req) of
             None \<Rightarrow> catch_error (Rejected (NotNull ''description'')) res s
           | Some d \<Rightarrow>
               try_send
                 (JTask \<lparr>task_id = next_id s, task_title = t, task_description = d,
                         task_dueDate = dueDate (body req), task_isFinished = False\<rparr>)
                 (status 200 res)
                 \<lparr>rows = rows s @
                    [\<lparr>task_id = next_id s, task_title = t, task_description = d,
                      task_dueDate = dueDate (body req), task_isFinished = False\<rparr>],
                  next_id = Suc (next_id s)\<rparr>))"
  by (simp add: post_task_def mem_repo_def mem_create_def mem_save_def Let_def
      split: option.splits)

lemma store_after_patch_task_mem:
  "store_after (patch_task mem_repo req res s) =
     s\<lparr>rows := map (\<lambda>t. if task_id t = params_id req
                          then set_props \<lparr>id' = None, title = title (body req),
                                 description = description (body req),
                                 dueDate = dueDate (body req),
                                 isFinished = isFinished (body req)\<rparr> t
                          else t) (rows s)\<rparr>"
  by (simp add: patch_task_def mem_repo_def mem_update_def res_simps)

lemma store_after_delete_task_mem:
  "store_after (delete_task mem_repo req res s) =
     s\<lparr>rows := filter (\<lambda>t. task_id t \<noteq> params_id req) (rows s)\<rparr>"
  by (simp add: delete_task_def mem_repo_def mem_delete_def res_simps)

lemma task_id_set_props: "id' p = None \<Longrightarrow> task_id (set_props p t) = task_id t"
  by (simp add: set_props_def)

lemma ids_after_patch:
  "map task_id (rows (store_after (patch_task mem_repo req res s))) = map task_id (rows s)"
  by (simp add: store_after_patch_task_mem task_id_set_props)

lemma ids_after_delete:
  "map task_id (rows (store_after (delete_task mem_repo req res s))) =
     filter (\<lambda>i. i \<noteq> params_id req) (map task_id (rows s))"
  by (simp add: store_after_delete_task_mem filter_map comp_def)

lemma ids_after_post:
  "map task_id (rows (store_after (post_task mem_repo req res s))) =
     map task_id (rows s) @
       (case title (body req) of
          None \<Rightarrow> []
        | Some t \<Rightarrow> (case description (body req) of None \<Rightarrow> [] | Some d \<Rightarrow> [next_id s]))"
  by (simp add: post_task_mem res_simps split: option.splits)

lemma store_ok_ids:
  "store_ok s = (distinct (map task_id (rows s)) \<and> (\<forall>i \<in> set (map task_id (rows s)). i < next_id s))"
  by (auto simp add: store_ok_def list_all_iff)

lemma store_ok_post: "store_ok s \<Longrightarrow> store_ok (store_after (post_task mem_repo req res s))"
  unfolding store_ok_ids ids_after_post
  by (auto simp add: post_task_mem res_simps split: option.splits)

lemma store_ok_patch: "store_ok s \<Longrightarrow> store_ok (store_after (patch_task mem_repo req res s))"
  unfolding store_ok_ids ids_after_patch
  by (simp add: store_after_patch_task_mem)

lemma store_ok_delete: "store_ok s \<Longrightarrow> store_ok (store_after (delete_task mem_repo req res s))"
  unfolding store_ok_ids ids_after_delete
  by (auto simp add: store_after_delete_task_mem)

lemma store_ok_handle:
  assumes "store_ok s"
  shows "store_ok (store_after (handle rt mem_repo req res s))"
proof (cases rt)
  case GetTasks
  with assms show ?thesis by (simp add: get_tasks_mem res_simps)
next
  case PostTask
  with assms show ?thesis by (simp add: store_ok_post)
next
  case GetTask
  with assms show ?thesis by (simp add: get_task_mem res_simps split: option.splits)
next
  case PatchTask
  with assms show ?thesis by (simp add: store_ok_patch)
next
  case DeleteTask
  with assms show ?thesis by (simp add: store_ok_delete)
qed

lemma store_ok_empty: "store_ok empty_store"
  by (simp add: store_ok_def empty_store_def)

lemma store_ok_serve: "store_ok s \<Longrightarrow> store_ok (serve reqs s)"
proof (induction reqs arbitrary: s)
  case Nil
  then show ?case by simp
next
  case (Cons a reqs)
  obtain rt req where a: "a = (rt, req)" by (cases a)
  from Cons.prems have "store_ok (store_after (handle rt mem_repo req fresh s))"
    by (rule store_ok_handle)
  then show ?case using a Cons.IH by simp
qed

lemma find_append_absent:
  "\<forall>x \<in> set xs. \<not> P x \<Longrightarrow> find P (xs @ ys) = find P ys"
  by (induction xs) simp_all

lemma find_map_hit:
  assumes "\<And>u. task_id (g u) = task_id u"
  shows "find (\<lambda>u. task_id u = k) (map (\<lambda>u. if task_id u = k then g u else u) xs)
         = map_option g (find (\<lambda>u. task_id u = k) xs)"
  using assms by (induction xs) simp_all

lemma filter_map_miss:
  assumes "\<And>u. task_id (g u) = task_id u"
  shows "filter (\<lambda>u. task_id u \<noteq> k) (map (\<lambda>u. if task_id u = k then g u else u) xs)
         = filter (\<lambda>u. task_id u \<noteq> k) xs"
  using assms by (induction xs) simp_all

lemma find_Some_filter: "find P xs = Some x \<Longrightarrow> filter P xs \<noteq> []"
  by (induction xs) (auto split: if_splits)

lemma sent_patch_task_mem:
  "sent (fst (patch_task mem_repo req res s)) =
     sent res @
       [if filter (\<lambda>u. task_id u = params_id req) (rows s) = []
        then (404, JText ''Task not found'')
        else (200, JText ''Task updated successfully'')]"
  by (simp add: patch_task_def mem_repo_def mem_update_def res_simps)

lemma sent_get_task_mem:
  "sent (fst (get_task mem_repo req fresh s)) =
     [case find (\<lambda>u. task_id u = params_id req) (rows s) of
        None \<Rightarrow> (404, JText ''Task not found'')
      | Some task \<Rightarrow> (200, JTask task)]"
  by (simp add: get_task_mem res_simps fresh_simps split: option.splits)

lemma store_ok_one_task_store: "store_ok one_task_store"
  by (simp add: store_ok_def one_task_store_eq)

text \<open>
  C8. Over the store of section 3, every operation of the API keeps the ids of the stored
  tasks: after \<^verbatim>\<open>GET\<close> and \<^verbatim>\<open>PATCH\<close> the rows carry, position by position, the ids they
  carried before; \<^verbatim>\<open>POST\<close> appends at most one row, under the next id of the sequence, and
  \<^verbatim>\<open>DELETE\<close> only removes the rows of the path id. \<^verbatim>\<open>PATCH\<close> never reads an id from
  the body. Each operation preserves the invariant that the ids are pairwise different,
  and so the ids are pairwise different after any sequence of requests served from the
  empty store.
\<close>

theorem ids_immutable_and_unique:
  "(store_ok s \<longrightarrow> store_ok (store_after (handle rt mem_repo req res s)))
   \<and> map task_id (rows (store_after (handle rt mem_repo req res s))) =
       (case rt of
          PostTask \<Rightarrow>
            map task_id (rows s) @
              (case title (body req) of
                 None \<Rightarrow> []
               | Some t \<Rightarrow> (case description (body req) of None \<Rightarrow> [] | Some d \<Rightarrow> [next_id s]))
        | DeleteTask \<Rightarrow> filter (\<lambda>i. i \<noteq> params_id req) (map task_id (rows s))
        | _ \<Rightarrow> map task_id (rows s))
   \<and> patch_task repository (rq\<lparr>body := (body rq)\<lparr>id' := i\<rparr>\<rparr>) rs st
       = patch_task repository rq rs st
   \<and> distinct (map task_id (rows (serve reqs empty_store)))"
proof -
  have step: "store_ok s \<longrightarrow> store_ok (store_after (handle rt mem_repo req res s))"
    by (simp add: store_ok_handle)
  have ids: "map task_id (rows (store_after (handle rt mem_repo req res s))) =
       (case rt of
          PostTask \<Rightarrow>
            map task_id (rows s) @
              (case title (body req) of
                 None \<Rightarrow> []
               | Some t \<Rightarrow> (case description (body req) of None \<Rightarrow> [] | Some d \<Rightarrow> [next_id s]))
        | DeleteTask \<Rightarrow> filter (\<lambda>i. i \<noteq> params_id req) (map task_id (rows s))
        | _ \<Rightarrow> map task_id (rows s))"
    by (cases rt)
      (simp_all add: get_tasks_mem get_task_mem ids_after_post ids_after_patch
        ids_after_delete res_simps split: option.splits)
  have body_id: "patch_task repository (rq\<lparr>body := (body rq)\<lparr>id' := i\<rparr>\<rparr>) rs st
       = patch_task repository rq rs st"
    by (simp add: patch_task_def)
  have "store_ok (serve reqs empty_store)"
    by (rule store_ok_serve [OF store_ok_empty])
  then have reach: "distinct (map task_id (rows (serve reqs empty_store)))"
    by (simp add: store_ok_def)
  from step ids body_id reach show ?thesis by blast
qed

theorem ids_immutable_and_unique_witness:
  "store_ok one_task_store
   \<and> store_ok (store_after (handle PatchTask mem_repo
        (req_for 1 (no_props\<lparr>id' := Some 99, title := Some ''Run''\<rparr>)) fresh one_task_store))
   \<and> map task_id (rows (store_after (handle PatchTask mem_repo
        (req_for 1 (no_props\<lparr>id' := Some 99, title := Some ''Run''\<rparr>)) fresh one_task_store)))
     = [1]
   \<and> distinct (map task_id (rows (serve
        [(PostTask, req_for 0 workout), (PostTask, req_for 0 workout),
         (DeleteTask, req_for 1 no_props), (PostTask, req_for 0 workout)] empty_store)))"
proof -
  note inst = ids_immutable_and_unique [where s = one_task_store and rt = PatchTask
      and req = "req_for 1 (no_props\<lparr>id' := Some 99, title := Some ''Run''\<rparr>)"
      and res = fresh
      and reqs = "[(PostTask, req_for 0 workout), (PostTask, req_for 0 workout),
         (DeleteTask, req_for 1 no_props), (PostTask, req_for 0 workout)]"]
  have ids: "map task_id (rows one_task_store) = [1]"
    by (simp add: one_task_store_eq)
  have kept: "store_ok one_task_store \<longrightarrow>
      store_ok (store_after (handle PatchTask mem_repo
        (req_for 1 (no_props\<lparr>id' := Some 99, title := Some ''Run''\<rparr>)) fresh one_task_store))"
    by (rule inst [THEN conjunct1])
  have same: "map task_id (rows (store_after (handle PatchTask mem_repo
        (req_for 1 (no_props\<lparr>id' := Some 99, title := Some ''Run''\<rparr>)) fresh one_task_store)))
      = map task_id (rows one_task_store)"
    using inst [THEN conjunct2, THEN conjunct1] by simp
  have reach: "distinct (map task_id (rows (serve
        [(PostTask, req_for 0 workout), (PostTask, req_for 0 workout),
         (DeleteTask, req_for 1 no_props), (PostTask, req_for 0 workout)] empty_store)))"
    by (rule inst [THEN conjunct2, THEN conjunct2, THEN conjunct2])
  from kept same reach ids store_ok_one_task_store show ?thesis
    by simp
qed

text \<open>
  C9. The handler of \<^verbatim>\<open>POST /\<close> reads the title, the description and the due date of the
  body and nothing else of the request: two requests that agree on these three get the
  same response and leave the same store, whatever the repository. An \<^verbatim>\<open>id\<close> or an
  \<^verbatim>\<open>isFinished\<close> in the body is ignored. Over the store of section 3, the task a
  successful \<^verbatim>\<open>POST\<close> creates has the id the store assigns and \<^verbatim>\<open>isFinished\<close> false,
  the default of the schema.
\<close>

theorem post_task_ignores_id_and_isFinished:
  "(title (body req1) = title (body req2)
      \<and> description (body req1) = description (body req2)
      \<and> dueDate (body req1) = dueDate (body req2) \<longrightarrow>
    post_task repository req1 res s = post_task repository req2 res s)
   \<and> post_task repository (req\<lparr>body := (body req)\<lparr>id' := i, isFinished := f\<rparr>\<rparr>) res s
       = post_task repository req res s
   \<and> (sent (fst (post_task mem_repo rq rs st)) = sent rs @ [(c, JTask t)] \<longrightarrow>
        task_isFinished t = False \<and> task_id t = next_id st
        \<and> rows (store_after (post_task mem_repo rq rs st)) = rows st @ [t])"
proof -
  have only: "title (body req1) = title (body req2)
      \<and> description (body req1) = description (body req2)
      \<and> dueDate (body req1) = dueDate (body req2) \<longrightarrow>
    post_task repository req1 res s = post_task repository req2 res s"
    by (simp add: post_task_def)
  have ignored: "post_task repository (req\<lparr>body := (body req)\<lparr>id' := i, isFinished := f\<rparr>\<rparr>) res s
       = post_task repository req res s"
    by (simp add: post_task_def)
  have created: "sent (fst (post_task mem_repo rq rs st)) = sent rs @ [(c, JTask t)] \<longrightarrow>
        task_isFinished t = False \<and> task_id t = next_id st
        \<and> rows (store_after (post_task mem_repo rq rs st)) = rows st @ [t]"
    by (auto simp add: post_task_mem res_simps split: option.splits)
  from only ignored created show ?thesis by blast
qed

theorem post_task_ignores_id_and_isFinished_witness:
  "post_task mem_repo (req_for 0 (workout\<lparr>id' := Some 99, isFinished := Some True\<rparr>)) fresh
      empty_store
     = post_task mem_repo (req_for 0 workout) fresh empty_store
   \<and> sent (fst (post_task mem_repo (req_for 0 (workout\<lparr>id' := Some 99, isFinished := Some True\<rparr>))
        fresh empty_store))
     = [(200, JTask \<lparr>task_id = 1, task_title = ''Workout'', task_description = ''jumping jacks'',
                      task_dueDate = None, task_isFinished = False\<rparr>)]"
proof -
  note inst = post_task_ignores_id_and_isFinished
    [where ?req1.0 = "req_for 0 (workout\<lparr>id' := Some 99, isFinished := Some True\<rparr>)"
      and ?req2.0 = "req_for 0 workout" and repository = mem_repo and res = fresh
      and s = empty_store
      and rq = "req_for 0 (workout\<lparr>id' := Some 99, isFinished := Some True\<rparr>)"
      and rs = fresh and st = empty_store and c = 200
      and t = "\<lparr>task_id = 1, task_title = ''Workout'', task_description = ''jumping jacks'',
                 task_dueDate = None, task_isFinished = False\<rparr>"]
  have agree:
    "title (body (req_for 0 (workout\<lparr>id' := Some 99, isFinished := Some True\<rparr>)))
       = title (body (req_for 0 workout))
     \<and> description (body (req_for 0 (workout\<lparr>id' := Some 99, isFinished := Some True\<rparr>)))
       = description (body (req_for 0 workout))
     \<and> dueDate (body (req_for 0 (workout\<lparr>id' := Some 99, isFinished := Some True\<rparr>)))
       = dueDate (body (req_for 0 workout))"
    by (simp add: req_for_def)
  have same: "post_task mem_repo (req_for 0 (workout\<lparr>id' := Some 99, isFinished := Some True\<rparr>))
      fresh empty_store = post_task mem_repo (req_for 0 workout) fresh empty_store"
    using inst [THEN conjunct1] agree by blast
  have "sent (fst (post_task mem_repo (req_for 0 workout) fresh empty_store))
     = [(200, JTask \<lparr>task_id = 1, task_title = ''Workout'', task_description = ''jumping jacks'',
                      task_dueDate = None, task_isFinished = False\<rparr>)]"
    by (simp add: post_task_mem req_for_def workout_def no_props_def empty_store_def
        res_simps fresh_simps)
  with same show ?thesis by simp
qed

text \<open>
  C7. Over the store of section 3: a \<^verbatim>\<open>POST /\<close> whose body has a title and a description
  succeeds with status 200 and the saved task, and a \<^verbatim>\<open>GET /:id\<close> with the id of that
  task, served next, answers 200 with the same task; its title, description and due date
  are the posted ones and its \<^verbatim>\<open>isFinished\<close> is false.
\<close>

theorem post_then_get_roundtrip:
  assumes "store_ok s"
    and "title (body req) = Some t"
    and "description (body req) = Some d"
  shows "\<exists>saved.
           sent (fst (post_task mem_repo req res s)) = sent res @ [(200, JTask saved)]
           \<and> sent (fst (get_task mem_repo \<lparr>params_id = task_id saved, body = b\<rparr> fresh
                         (store_after (post_task mem_repo req res s))))
             = [(200, JTask saved)]
           \<and> task_title saved = t
           \<and> task_description saved = d
           \<and> task_dueDate saved = dueDate (body req)
           \<and> task_isFinished saved = False"
proof -
  from assms(1) have absent: "\<forall>u \<in> set (rows s). \<not> task_id u = next_id s"
    by (auto simp add: store_ok_def list_all_iff)
  show ?thesis
    using assms(2,3)
    by (simp add: post_task_mem sent_get_task_mem res_simps find_append_absent [OF absent])
qed

theorem post_then_get_roundtrip_witness:
  "store_ok one_task_store
   \<and> title (body (req_for 0 workout)) = Some ''Workout''
   \<and> description (body (req_for 0 workout)) = Some ''jumping jacks''
   \<and> (\<exists>saved.
        sent (fst (post_task mem_repo (req_for 0 workout) fresh one_task_store))
          = [(200, JTask saved)]
        \<and> sent (fst (get_task mem_repo \<lparr>params_id = task_id saved, body = no_props\<rparr> fresh
                      (store_after (post_task mem_repo (req_for 0 workout) fresh one_task_store))))
          = [(200, JTask saved)]
        \<and> task_title saved = ''Workout''
        \<and> task_description saved = ''jumping jacks''
        \<and> task_dueDate saved = None
        \<and> task_isFinished saved = False)"
proof -
  have t: "title (body (req_for 0 workout)) = Some ''Workout''"
    by (simp add: req_for_def workout_def no_props_def)
  have d: "description (body (req_for 0 workout)) = Some ''jumping jacks''"
    by (simp add: req_for_def workout_def no_props_def)
  have due: "dueDate (body (req_for 0 workout)) = None"
    by (simp add: req_for_def workout_def no_props_def)
  show ?thesis
    using store_ok_one_task_store t d
      post_then_get_roundtrip [OF store_ok_one_task_store t d, of fresh no_props]
    by (simp add: due fresh_simps)
qed

text \<open>
  C2. Over the store of section 3: when \<^verbatim>\<open>GET /:id\<close> finds a task, a \<^verbatim>\<open>PATCH /:id\<close>
  on the same id answers 200 with \<^verbatim>\<open>"Task updated successfully"\<close>, and the
  \<^verbatim>\<open>GET /:id\<close> served next finds a task with the same id in which each of title,
  description, due date and \<^verbatim>\<open>isFinished\<close> has the value of the body where the body
  supplies one, and the value it had where the body does not. The rows of other ids are
  the rows they were, and no row is added or removed.
\<close>

theorem patch_changes_supplied_fields_only:
  assumes "sent (fst (get_task mem_repo req fresh s)) = [(200, JTask t)]"
  shows "sent (fst (patch_task mem_repo req res s))
           = sent res @ [(200, JText ''Task updated successfully'')]
         \<and> sent (fst (get_task mem_repo req fresh (store_after (patch_task mem_repo req res s))))
           = [(200, JTask
                \<lparr>task_id = task_id t,
                 task_title = (case title (body req) of None \<Rightarrow> task_title t | Some v \<Rightarrow> v),
                 task_description =
                   (case description (body req) of None \<Rightarrow> task_description t | Some v \<Rightarrow> v),
                 task_dueDate =
                   (case dueDate (body req) of None \<Rightarrow> task_dueDate t | Some v \<Rightarrow> Some v),
                 task_isFinished =
                   (case isFinished (body req) of None \<Rightarrow> task_isFinished t | Some v \<Rightarrow> v)\<rparr>)]
         \<and> filter (\<lambda>u. task_id u \<noteq> params_id req) (rows (store_after (patch_task mem_repo req res s)))
           = filter (\<lambda>u. task_id u \<noteq> params_id req) (rows s)
         \<and> length (rows (store_after (patch_task mem_repo req res s))) = length (rows s)"
proof -
  let ?p = "\<lparr>id' = None, title = title (body req), description = description (body req),
             dueDate = dueDate (body req), isFinished = isFinished (body req)\<rparr>"
  have keep: "\<And>u. task_id (set_props ?p u) = task_id u"
    by (simp add: task_id_set_props)
  from assms have found: "find (\<lambda>u. task_id u = params_id req) (rows s) = Some t"
    by (simp add: sent_get_task_mem split: option.splits)
  then have hit: "filter (\<lambda>u. task_id u = params_id req) (rows s) \<noteq> []"
    by (rule find_Some_filter)
  have answer: "sent (fst (patch_task mem_repo req res s))
      = sent res @ [(200, JText ''Task updated successfully'')]"
    using hit by (simp add: sent_patch_task_mem)
  have "find (\<lambda>u. task_id u = params_id req) (rows (store_after (patch_task mem_repo req res s)))
      = Some (set_props ?p t)"
    using found by (simp add: store_after_patch_task_mem find_map_hit [OF keep])
  then have after: "sent (fst (get_task mem_repo req fresh (store_after (patch_task mem_repo req res s))))
      = [(200, JTask (set_props ?p t))]"
    by (simp add: sent_get_task_mem)
  have others: "filter (\<lambda>u. task_id u \<noteq> params_id req) (rows (store_after (patch_task mem_repo req res s)))
      = filter (\<lambda>u. task_id u \<noteq> params_id req) (rows s)"
    by (simp add: store_after_patch_task_mem filter_map_miss [OF keep])
  have count: "length (rows (store_after (patch_task mem_repo req res s))) = length (rows s)"
    by (simp add: store_after_patch_task_mem)
  from answer after others count show ?thesis
    by (simp add: set_props_def)
qed

theorem patch_changes_supplied_fields_only_witness:
  "sent (fst (get_task mem_repo (req_for 1 (no_props\<lparr>isFinished := Some True\<rparr>)) fresh
       one_task_store))
     = [(200, JTask \<lparr>task_id = 1, task_title = ''Workout'', task_description = ''jumping jacks'',
                      task_dueDate = None, task_isFinished = False\<rparr>)]
   \<and> sent (fst (patch_task mem_repo (req_for 1 (no_props\<lparr>isFinished := Some True\<rparr>)) fresh
       one_task_store))
     = [(200, JText ''Task updated successfully'')]
   \<and> sent (fst (get_task mem_repo (req_for 1 (no_props\<lparr>isFinished := Some True\<rparr>)) fresh
       (store_after (patch_task mem_repo (req_for 1 (no_props\<lparr>isFinished := Some True\<rparr>)) fresh
          one_task_store))))
     = [(200, JTask \<lparr>task_id = 1, task_title = ''Workout'', task_description = ''jumping jacks'',
                      task_dueDate = None, task_isFinished = True\<rparr>)]"
proof -
  have before: "sent (fst (get_task mem_repo (req_for 1 (no_props\<lparr>isFinished := Some True\<rparr>))
      fresh one_task_store))
     = [(200, JTask \<lparr>task_id = 1, task_title = ''Workout'', task_description = ''jumping jacks'',
                      task_dueDate = None, task_isFinished = False\<rparr>)]"
    by (simp add: sent_get_task_mem req_for_def one_task_store_eq)
  show ?thesis
    using before patch_changes_supplied_fields_only [OF before, of fresh]
    by (simp add: req_for_def no_props_def fresh_simps)
qed

end
